theory Spec2Isabelle
  imports Main "HOL-Library.Sublist"
begin

section \<open>Python values\<close>

text \<open>
  The client works on decoded JSON documents, which Python represents by its own
  dynamically typed values. A dictionary keeps its keys in insertion order, so it is an
  association list (a decoded dictionary has pairwise distinct keys; a lookup takes the
  first binding). Strings are sequences of code points below 256. Floating point numbers
  are outside the model.
\<close>

datatype json =
    JNull
  | JBool bool
  | JInt int
  | JStr string
  | JList "json list"
  | JDict "(string \<times> json) list"

text \<open>The exceptions that the modelled code raises or lets through.\<close>

datatype py_exc =
    CTFdAPIError string
  | AttributeError
  | KeyError
  | TypeError
  | ValidationError
  | MarkupError

text \<open>Truth value testing (\<^verbatim>\<open>if x:\<close>, \<^verbatim>\<open>not x\<close>).\<close>

fun truthy :: "json \<Rightarrow> bool" where
  "truthy JNull = False"
| "truthy (JBool b) = b"
| "truthy (JInt n) = (n \<noteq> 0)"
| "truthy (JStr s) = (s \<noteq> [])"
| "truthy (JList xs) = (xs \<noteq> [])"
| "truthy (JDict kvs) = (kvs \<noteq> [])"

text \<open>\<^verbatim>\<open>d.get(k, default)\<close> and \<^verbatim>\<open>k in d\<close> on the bindings of a dictionary.\<close>

definition dict_get :: "(string \<times> json) list \<Rightarrow> string \<Rightarrow> json \<Rightarrow> json" where
  "dict_get kvs k dflt = (case map_of kvs k of None \<Rightarrow> dflt | Some v \<Rightarrow> v)"

definition dict_has :: "(string \<times> json) list \<Rightarrow> string \<Rightarrow> bool" where
  "dict_has kvs k = (map_of kvs k \<noteq> None)"

subsection \<open>String operations\<close>

text \<open>\<^verbatim>\<open>s.startswith(p)\<close> is \<^const>\<open>prefix\<close>; \<^verbatim>\<open>p in s\<close> is a search over the suffixes.\<close>

fun py_in :: "string \<Rightarrow> string \<Rightarrow> bool" where
  "py_in sub [] = (sub = [])"
| "py_in sub (c # cs) = (prefix sub (c # cs) \<or> py_in sub cs)"

definition lstrip :: "char \<Rightarrow> string \<Rightarrow> string" where
  "lstrip c s = dropWhile (\<lambda>x. x = c) s"

definition rstrip :: "char \<Rightarrow> string \<Rightarrow> string" where
  "rstrip c s = rev (dropWhile (\<lambda>x. x = c) (rev s))"

definition lower_char :: "char \<Rightarrow> char" where
  "lower_char c =
     (let n = (of_char c :: nat)
      in if (65 \<le> n \<and> n \<le> 90) \<or> (192 \<le> n \<and> n \<le> 222 \<and> n \<noteq> 215)
         then char_of (n + 32) else c)"

definition lower :: "string \<Rightarrow> string" where
  "lower s = map lower_char s"

subsection \<open>Conversion to text: \<^verbatim>\<open>str\<close> and \<^verbatim>\<open>repr\<close>\<close>

definition digit_char :: "nat \<Rightarrow> char" where
  "digit_char d = char_of (48 + d)"

fun str_nat :: "nat \<Rightarrow> string" where
  "str_nat n = (if n < 10 then [digit_char n] else str_nat (n div 10) @ [digit_char (n mod 10)])"

declare str_nat.simps [simp del]

definition str_int :: "int \<Rightarrow> string" where
  "str_int i = (if i < 0 then CHR ''-'' # str_nat (nat (- i)) else str_nat (nat i))"

definition hex_char :: "nat \<Rightarrow> char" where
  "hex_char d = (if d < 10 then char_of (48 + d) else char_of (87 + d))"

definition printable :: "char \<Rightarrow> bool" where
  "printable c =
     (let n = (of_char c :: nat)
      in 32 \<le> n \<and> n \<noteq> 127 \<and> \<not> (128 \<le> n \<and> n \<le> 160) \<and> n \<noteq> 173)"

definition escape_char :: "char \<Rightarrow> char \<Rightarrow> string" where
  "escape_char q c =
     (if c = q \<or> c = CHR 0x5C then [CHR 0x5C, c]
      else if c = CHR 0x09 then [CHR 0x5C, CHR ''t'']
      else if c = CHR 0x0A then [CHR 0x5C, CHR ''n'']
      else if c = CHR 0x0D then [CHR 0x5C, CHR ''r'']
      else if printable c then [c]
      else [CHR 0x5C, CHR ''x'', hex_char (of_char c div 16), hex_char (of_char c mod 16)])"

definition repr_str :: "string \<Rightarrow> string" where
  "repr_str s =
     (let q = (if CHR 0x27 \<in> set s \<and> CHR 0x22 \<notin> set s then CHR 0x22 else CHR 0x27)
      in [q] @ concat (map (escape_char q) s) @ [q])"

fun join :: "string \<Rightarrow> string list \<Rightarrow> string" where
  "join sep [] = []"
| "join sep [x] = x"
| "join sep (x # y # ys) = x @ sep @ join sep (y # ys)"

fun py_repr :: "json \<Rightarrow> string" where
  "py_repr JNull = ''None''"
| "py_repr (JBool b) = (if b then ''True'' else ''False'')"
| "py_repr (JInt n) = str_int n"
| "py_repr (JStr s) = repr_str s"
| "py_repr (JList xs) = ''['' @ join '', '' (map py_repr xs) @ '']''"
| "py_repr (JDict kvs) =
     ''{'' @ join '', '' (map (\<lambda>kv. repr_str (fst kv) @ '': '' @ py_repr (snd kv)) kvs) @ ''}''"

fun py_str :: "json \<Rightarrow> string" where
  "py_str (JStr s) = s"
| "py_str v = py_repr v"

section \<open>Transport\<close>

text \<open>
  One HTTP exchange of the session: the request sent, and what \<^verbatim>\<open>session.request\<close>
  gives back. The retries of the mounted adapter happen inside that call; a call of
  \<^verbatim>\<open>session.request\<close> is what is counted as one HTTP call.
\<close>

record request =
  req_method :: string
  req_url :: string
  req_auth :: string
  req_json :: "json option"

text \<open>
  The body of a response as \<^verbatim>\<open>_make_request\<close> reads it: empty content, content that
  \<^verbatim>\<open>response.json()\<close> decodes, or content on which it raises. Depending on the
  version of the HTTP library that exception is a \<^verbatim>\<open>RequestException\<close> or a bare
  \<^verbatim>\<open>ValueError\<close>; it carries its text.
\<close>

datatype exc_class = AsRequestException | AsValueError

datatype body = NoContent | Json json | NotJson exc_class string

record response =
  status_code :: nat
  reason :: string
  resp_url :: string
  content :: body

datatype http_outcome =
    RequestException string
  | Responded response

text \<open>
  The server and the network are the environment: the outcome of a request may depend on
  the requests made before it (oldest first).
\<close>

type_synonym server = "request list \<Rightarrow> request \<Rightarrow> http_outcome"

text \<open>
  \<^verbatim>\<open>Response.raise_for_status\<close> of the HTTP library, which \<^verbatim>\<open>_make_request\<close> calls:
  the text of the \<^verbatim>\<open>HTTPError\<close> it raises for a 4xx or 5xx status, if any.
\<close>

definition raise_for_status :: "response \<Rightarrow> string option" where
  "raise_for_status r =
     (if 400 \<le> status_code r \<and> status_code r < 500
      then Some (str_nat (status_code r) @ '' Client Error: '' @ reason r @ '' for url: '' @ resp_url r)
      else if 500 \<le> status_code r \<and> status_code r < 600
      then Some (str_nat (status_code r) @ '' Server Error: '' @ reason r @ '' for url: '' @ resp_url r)
      else None)"

section \<open>The API client\<close>

record CTFdClient =
  base_url :: string
  api_url :: string
  token :: string
  timeout :: int

definition CTFdClient_init :: "string \<Rightarrow> string \<Rightarrow> int \<Rightarrow> CTFdClient" where
  "CTFdClient_init url tok tmo =
     \<lparr>base_url = rstrip CHR ''/'' url,
      api_url = rstrip CHR ''/'' url @ ''/api/v1'',
      token = tok,
      timeout = tmo\<rparr>"

subsection \<open>\<^verbatim>\<open>_make_request\<close>\<close>

text \<open>
  The envelope rule applied to a decoded body (the three lines after
  \<^verbatim>\<open>data = response.json()\<close>). \<^verbatim>\<open>data.get\<close> exists on dictionaries only.
\<close>

definition unwrap :: "json \<Rightarrow> py_exc + json" where
  "unwrap data =
     (case data of
        JDict kvs \<Rightarrow>
          if \<not> truthy (dict_get kvs ''success'' (JBool True))
          then Inl (CTFdAPIError (''API Error: '' @ py_str (dict_get kvs ''message'' (JStr ''Unknown error''))))
          else Inr (dict_get kvs ''data'' data)
      | _ \<Rightarrow> Inl AttributeError)"

text \<open>The body of the \<^verbatim>\<open>try\<close> block once the response has arrived, with both handlers.\<close>

definition read_response :: "response \<Rightarrow> py_exc + json" where
  "read_response r =
     (case raise_for_status r of
        Some e \<Rightarrow> Inl (CTFdAPIError (''Request failed: '' @ e))
      | None \<Rightarrow>
          (case content r of
             NoContent \<Rightarrow> Inr (JDict [])
           | NotJson AsRequestException e \<Rightarrow> Inl (CTFdAPIError (''Request failed: '' @ e))
           | NotJson AsValueError e \<Rightarrow> Inl (CTFdAPIError (''Invalid JSON response: '' @ e))
           | Json data \<Rightarrow> unwrap data))"

definition build_request :: "CTFdClient \<Rightarrow> string \<Rightarrow> string \<Rightarrow> json option \<Rightarrow> request" where
  "build_request c method endpoint js =
     \<lparr>req_method = method,
      req_url = api_url c @ ''/'' @ lstrip CHR ''/'' endpoint,
      req_auth = ''Token '' @ token c,
      req_json = js\<rparr>"

text \<open>
  Every client operation takes the requests made so far and returns them extended by its
  own, next to its result or the exception that leaves it.
\<close>

definition make_request ::
  "server \<Rightarrow> CTFdClient \<Rightarrow> string \<Rightarrow> string \<Rightarrow> json option \<Rightarrow> request list
     \<Rightarrow> (py_exc + json) \<times> request list" where
  "make_request srv c method endpoint js hist =
     (let req = build_request c method endpoint js
      in (case srv hist req of
            RequestException e \<Rightarrow> Inl (CTFdAPIError (''Request failed: '' @ e))
          | Responded r \<Rightarrow> read_response r,
          hist @ [req]))"

subsection \<open>\<^verbatim>\<open>test_connection\<close>\<close>

definition test_connection ::
  "server \<Rightarrow> CTFdClient \<Rightarrow> request list \<Rightarrow> (py_exc + bool) \<times> request list" where
  "test_connection srv c hist =
     (case make_request srv c ''GET'' ''/challenges'' None hist of
        (Inr data, h) \<Rightarrow> (Inr True, h)
      | (Inl (CTFdAPIError e), h) \<Rightarrow> (Inr False, h)
      | (Inl exc, h) \<Rightarrow> (Inl exc, h))"

subsection \<open>\<^verbatim>\<open>submit_flag\<close>\<close>

text \<open>The candidates, in the order of the source.\<close>

record attempt =
  endpoint :: string
  payload :: json

definition submission_attempts :: "int \<Rightarrow> string \<Rightarrow> attempt list" where
  "submission_attempts challenge_id flag =
     [\<lparr>endpoint = ''/challenges/attempt'',
       payload = JDict [(''challenge_id'', JInt challenge_id), (''submission'', JStr flag)]\<rparr>,
      \<lparr>endpoint = ''/challenges/'' @ str_int challenge_id @ ''/attempts'',
       payload = JDict [(''submission'', JStr flag)]\<rparr>,
      \<lparr>endpoint = ''/submissions'',
       payload = JDict [(''challenge_id'', JInt challenge_id), (''submission'', JStr flag)]\<rparr>,
      \<lparr>endpoint = ''/submissions'',
       payload = JDict [(''challenge'', JInt challenge_id), (''flag'', JStr flag)]\<rparr>]"

text \<open>
  What the loop body does with the data of a request that succeeded. \<^verbatim>\<open>message.lower()\<close>
  is reached only when the three tests before it are false, and exists on strings only.
\<close>

definition classify :: "json \<Rightarrow> py_exc + (bool \<times> json)" where
  "classify data =
     (case data of
        JDict kvs \<Rightarrow>
          (let status0 = dict_get kvs ''status'' JNull;
               message = dict_get kvs ''message'' (JStr ''Unknown response'');
               status = (if status0 = JNull \<and> dict_has kvs ''success''
                         then (if truthy (dict_get kvs ''success'' JNull)
                               then JStr ''correct'' else JStr ''incorrect'')
                         else status0)
           in if status = JStr ''correct'' \<or> status = JStr ''success''
                 \<or> dict_get kvs ''success'' JNull = JBool True
              then Inr (True, message)
              else (case message of
                      JStr m \<Rightarrow>
                        Inr (prefix ''correct'' (lower m) \<and> \<not> prefix ''incorrect'' (lower m), message)
                    | _ \<Rightarrow> Inl AttributeError))
      | _ \<Rightarrow> Inr (False, JStr (''Unexpected response format: '' @ py_str data)))"

text \<open>The two returns after the loop; \<^verbatim>\<open>last_error\<close> is \<^verbatim>\<open>None\<close> or the last error text.\<close>

definition exhausted :: "string option \<Rightarrow> bool \<times> json" where
  "exhausted last_error =
     (case last_error of
        None \<Rightarrow> (False, JStr (''Could not find working submission endpoint. Last error: '' @ ''None''))
      | Some e \<Rightarrow>
          if e \<noteq> [] \<and> py_in ''403'' e
          then (False, JStr ''Flag submission not allowed - this CTFd instance may not support API submissions or requires different permissions'')
          else (False, JStr (''Could not find working submission endpoint. Last error: '' @ e)))"

text \<open>
  The loop prints two lines to the console: one before each request, with the endpoint
  and the payload, and one after each failed request, with the endpoint and the error
  text. The console reads a line as markup and raises on a line that it cannot render
  (a closing tag that closes nothing, for one), and the payload holds the flag and the
  error text holds what the server sent. Which lines the console library renders is a
  parameter of the loop: \<open>console line\<close> is true when the line is printed, false when the
  console raises. Such an exception is not a \<^verbatim>\<open>CTFdAPIError\<close>, so it leaves
  \<^verbatim>\<open>submit_flag\<close>, from the \<^verbatim>\<open>try\<close> block as well as from the handler.
\<close>

definition trying_line :: "attempt \<Rightarrow> string" where
  "trying_line a =
     ''[blue]Trying endpoint: '' @ endpoint a @ '' with payload: '' @ py_str (payload a) @ ''[/blue]''"

definition failed_line :: "attempt \<Rightarrow> string \<Rightarrow> string" where
  "failed_line a error_msg =
     ''[red]Endpoint '' @ endpoint a @ '' failed: '' @ error_msg @ ''[/red]''"

fun try_attempts ::
  "(string \<Rightarrow> bool) \<Rightarrow> server \<Rightarrow> CTFdClient \<Rightarrow> attempt list \<Rightarrow> string option \<Rightarrow> request list
     \<Rightarrow> (py_exc + (bool \<times> json)) \<times> request list" where
  "try_attempts console srv c [] last_error hist = (Inr (exhausted last_error), hist)"
| "try_attempts console srv c (a # as) last_error hist =
     (if \<not> console (trying_line a) then (Inl MarkupError, hist)
      else
        (case make_request srv c ''POST'' (endpoint a) (Some (payload a)) hist of
           (Inr data, h) \<Rightarrow> (classify data, h)
         | (Inl (CTFdAPIError error_msg), h) \<Rightarrow>
             if \<not> console (failed_line a error_msg) then (Inl MarkupError, h)
             else if \<not> py_in ''404'' error_msg \<and> \<not> py_in ''403'' error_msg
             then (Inr (False, JStr error_msg), h)
             else try_attempts console srv c as (Some error_msg) h
         | (Inl exc, h) \<Rightarrow> (Inl exc, h)))"

definition submit_flag ::
  "(string \<Rightarrow> bool) \<Rightarrow> server \<Rightarrow> CTFdClient \<Rightarrow> int \<Rightarrow> string \<Rightarrow> request list
     \<Rightarrow> (py_exc + (bool \<times> json)) \<times> request list" where
  "submit_flag console srv c challenge_id flag hist =
     try_attempts console srv c (submission_attempts challenge_id flag) None hist"

text \<open>
  A console for closed instances. Every line of the loop is a text between a colour tag
  and its closing tag; this console prints a line that has no opening bracket besides
  those two, and raises on every other line. The console library renders each line of
  the loop that this console prints.
\<close>

definition plain_console :: "string \<Rightarrow> bool" where
  "plain_console line = (length (filter (\<lambda>ch. ch = CHR ''['') line) = 2)"

subsection \<open>Iteration and subscription of Python values\<close>

text \<open>
  \<^verbatim>\<open>for x in v\<close>: a list gives its elements, a dictionary its keys, a string its
  characters; anything else is not iterable.
\<close>

fun py_iter :: "json \<Rightarrow> py_exc + json list" where
  "py_iter (JList xs) = Inr xs"
| "py_iter (JDict kvs) = Inr (map (\<lambda>kv. JStr (fst kv)) kvs)"
| "py_iter (JStr s) = Inr (map (\<lambda>ch. JStr [ch]) s)"
| "py_iter v = Inl TypeError"

text \<open>\<^verbatim>\<open>v[k]\<close> with a string key \<open>k\<close>.\<close>

fun py_getitem :: "json \<Rightarrow> string \<Rightarrow> py_exc + json" where
  "py_getitem (JDict kvs) k = (case map_of kvs k of None \<Rightarrow> Inl KeyError | Some v \<Rightarrow> Inr v)"
| "py_getitem v k = Inl TypeError"

text \<open>\<^verbatim>\<open>k in v\<close> with a string \<open>k\<close>.\<close>

fun py_contains :: "string \<Rightarrow> json \<Rightarrow> py_exc + bool" where
  "py_contains k (JDict kvs) = Inr (dict_has kvs k)"
| "py_contains k (JList xs) = Inr (JStr k \<in> set xs)"
| "py_contains k (JStr s) = Inr (py_in k s)"
| "py_contains k v = Inl TypeError"

subsection \<open>\<^verbatim>\<open>get_scoreboard\<close>\<close>

record ScoreboardEntry =
  pos :: int
  account_id :: int
  account_name :: string
  score :: int
  account_type :: string

text \<open>
  The field validation that the model classes inherit from the validation library is a
  parameter: what it makes of a value given for an integer field and for a string field,
  \<open>None\<close> when it rejects the value.
\<close>

record validators =
  as_int :: "json \<Rightarrow> int option"
  as_str :: "json \<Rightarrow> string option"

text \<open>The constructor call of the loop body, for the entry at position \<open>i\<close>.\<close>

definition scoreboard_entry :: "validators \<Rightarrow> int \<Rightarrow> json \<Rightarrow> py_exc + ScoreboardEntry" where
  "scoreboard_entry v i entry =
     (case py_getitem entry ''account_id'' of
        Inl e \<Rightarrow> Inl e
      | Inr aid \<Rightarrow>
     (case py_getitem entry ''name'' of
        Inl e \<Rightarrow> Inl e
      | Inr nm \<Rightarrow>
     (case py_getitem entry ''score'' of
        Inl e \<Rightarrow> Inl e
      | Inr sc \<Rightarrow>
     (case entry of
        JDict kvs \<Rightarrow>
          (case (as_int v aid, as_str v nm, as_int v sc, as_str v (dict_get kvs ''type'' (JStr ''user''))) of
             (Some a, Some n, Some s, Some t) \<Rightarrow>
               Inr \<lparr>pos = i, account_id = a, account_name = n, score = s, account_type = t\<rparr>
           | _ \<Rightarrow> Inl ValidationError)
      | _ \<Rightarrow> Inl AttributeError))))"

text \<open>The loop over \<^verbatim>\<open>enumerate(data, 1)\<close>, from position \<open>i\<close> on.\<close>

fun scoreboard_entries :: "validators \<Rightarrow> int \<Rightarrow> json list \<Rightarrow> py_exc + ScoreboardEntry list" where
  "scoreboard_entries v i [] = Inr []"
| "scoreboard_entries v i (entry # rest) =
     (case scoreboard_entry v i entry of
        Inl e \<Rightarrow> Inl e
      | Inr se \<Rightarrow>
          (case scoreboard_entries v (i + 1) rest of
             Inl e \<Rightarrow> Inl e
           | Inr ses \<Rightarrow> Inr (se # ses)))"

definition get_scoreboard ::
  "validators \<Rightarrow> server \<Rightarrow> CTFdClient \<Rightarrow> int \<Rightarrow> request list
     \<Rightarrow> (py_exc + ScoreboardEntry list) \<times> request list" where
  "get_scoreboard v srv c count hist =
     (case make_request srv c ''GET'' (''/scoreboard?count='' @ str_int count) None hist of
        (Inl e, h) \<Rightarrow> (Inl e, h)
      | (Inr data, h) \<Rightarrow>
          (case py_iter data of
             Inl e \<Rightarrow> (Inl e, h)
           | Inr ds \<Rightarrow> (scoreboard_entries v 1 ds, h)))"

subsection \<open>\<^verbatim>\<open>get_challenge_files\<close>\<close>

text \<open>The loop over the files; \<^verbatim>\<open>file.startswith\<close> exists on strings only.\<close>

fun file_urls :: "string \<Rightarrow> json list \<Rightarrow> py_exc + string list" where
  "file_urls base [] = Inr []"
| "file_urls base (f # fs) =
     (case f of
        JStr file \<Rightarrow>
          (case file_urls base fs of
             Inl e \<Rightarrow> Inl e
           | Inr urls \<Rightarrow>
               Inr ((if prefix ''http'' file then file
                     else if prefix ''/files/'' file then base @ file
                     else base @ ''/files/'' @ lstrip CHR ''/'' file) # urls))
      | _ \<Rightarrow> Inl AttributeError)"

definition get_challenge_files ::
  "server \<Rightarrow> CTFdClient \<Rightarrow> int \<Rightarrow> request list \<Rightarrow> (py_exc + string list) \<times> request list" where
  "get_challenge_files srv c challenge_id hist =
     (case make_request srv c ''GET'' (''/challenges/'' @ str_int challenge_id) None hist of
        (Inl e, h) \<Rightarrow> (Inl e, h)
      | (Inr data, h) \<Rightarrow>
          (case data of
             JDict kvs \<Rightarrow>
               (case py_iter (dict_get kvs ''files'' (JList [])) of
                  Inl e \<Rightarrow> (Inl e, h)
                | Inr fs \<Rightarrow> (file_urls (base_url c) fs, h))
           | _ \<Rightarrow> (Inl AttributeError, h)))"

text \<open>
  An absolute URL, as the claims about the returned URLs mean it: the text starts with the
  scheme \<^verbatim>\<open>http\<close> or \<^verbatim>\<open>https\<close> and the \<^verbatim>\<open>://\<close> after it.
\<close>

definition absolute_url :: "string \<Rightarrow> bool" where
  "absolute_url u = (prefix ''http://'' u \<or> prefix ''https://'' u)"

subsection \<open>\<^verbatim>\<open>get_user_solves\<close>\<close>

text \<open>
  The class body defines \<^verbatim>\<open>get_user_solves\<close> twice. A later \<^verbatim>\<open>def\<close> in a class body
  rebinds the name, so the method that \<^verbatim>\<open>CTFdClient.get_user_solves\<close> denotes is the second
  one, which asks the solves endpoint of the given user only. The user id is formatted
  into the path as it is, \<^verbatim>\<open>None\<close> included.
\<close>

definition str_user_id :: "int option \<Rightarrow> string" where
  "str_user_id user_id = (case user_id of None \<Rightarrow> ''None'' | Some n \<Rightarrow> str_int n)"

definition get_user_solves ::
  "server \<Rightarrow> CTFdClient \<Rightarrow> int option \<Rightarrow> request list \<Rightarrow> (py_exc + json) \<times> request list" where
  "get_user_solves srv c user_id hist =
     (case make_request srv c ''GET'' (''/users/'' @ str_user_id user_id @ ''/solves'') None hist of
        (Inr data, h) \<Rightarrow> (Inr data, h)
      | (Inl (CTFdAPIError e), h) \<Rightarrow> (Inr (JList []), h)
      | (Inl exc, h) \<Rightarrow> (Inl exc, h))"

text \<open>
  The first definition, which the second one shadows. Its three list comprehensions and
  the loop of its last resort come first.
\<close>

text \<open>\<^verbatim>\<open>[solve['challenge_id'] for solve in data if 'challenge_id' in solve]\<close>\<close>

fun solves_with_id :: "json list \<Rightarrow> py_exc + json list" where
  "solves_with_id [] = Inr []"
| "solves_with_id (solve # rest) =
     (case py_contains ''challenge_id'' solve of
        Inl e \<Rightarrow> Inl e
      | Inr False \<Rightarrow> solves_with_id rest
      | Inr True \<Rightarrow>
          (case py_getitem solve ''challenge_id'' of
             Inl e \<Rightarrow> Inl e
           | Inr cid \<Rightarrow>
               (case solves_with_id rest of Inl e \<Rightarrow> Inl e | Inr ids \<Rightarrow> Inr (cid # ids))))"

text \<open>\<^verbatim>\<open>[solve['challenge_id'] for solve in data['solves']]\<close>\<close>

fun solve_ids :: "json list \<Rightarrow> py_exc + json list" where
  "solve_ids [] = Inr []"
| "solve_ids (solve # rest) =
     (case py_getitem solve ''challenge_id'' of
        Inl e \<Rightarrow> Inl e
      | Inr cid \<Rightarrow> (case solve_ids rest of Inl e \<Rightarrow> Inl e | Inr ids \<Rightarrow> Inr (cid # ids)))"

text \<open>\<^verbatim>\<open>[sub['challenge_id'] for sub in data if sub.get('type') == 'correct']\<close>\<close>

fun correct_submissions :: "json list \<Rightarrow> py_exc + json list" where
  "correct_submissions [] = Inr []"
| "correct_submissions (sub # rest) =
     (case sub of
        JDict kvs \<Rightarrow>
          if dict_get kvs ''type'' JNull = JStr ''correct''
          then (case py_getitem sub ''challenge_id'' of
                  Inl e \<Rightarrow> Inl e
                | Inr cid \<Rightarrow>
                    (case correct_submissions rest of Inl e \<Rightarrow> Inl e | Inr ids \<Rightarrow> Inr (cid # ids)))
          else correct_submissions rest
      | _ \<Rightarrow> Inl AttributeError)"

text \<open>The loop over the challenges list in the last resort.\<close>

fun solved_by_me_ids :: "json list \<Rightarrow> py_exc + json list" where
  "solved_by_me_ids [] = Inr []"
| "solved_by_me_ids (challenge_data # rest) =
     (case challenge_data of
        JDict kvs \<Rightarrow>
          if truthy (dict_get kvs ''solved_by_me'' (JBool False))
          then (case py_getitem challenge_data ''id'' of
                  Inl e \<Rightarrow> Inl e
                | Inr cid \<Rightarrow>
                    (case solved_by_me_ids rest of Inl e \<Rightarrow> Inl e | Inr ids \<Rightarrow> Inr (cid # ids)))
          else solved_by_me_ids rest
      | _ \<Rightarrow> Inl AttributeError)"

text \<open>The last \<^verbatim>\<open>try\<close> block: its bare \<^verbatim>\<open>except\<close> turns every exception into the empty list.\<close>

definition solves_from_challenges ::
  "server \<Rightarrow> CTFdClient \<Rightarrow> request list \<Rightarrow> json list \<times> request list" where
  "solves_from_challenges srv c hist =
     (case make_request srv c ''GET'' ''/challenges'' None hist of
        (Inl e, h) \<Rightarrow> ([], h)
      | (Inr challenges_data, h) \<Rightarrow>
          (case py_iter challenges_data of
             Inl e \<Rightarrow> ([], h)
           | Inr cs \<Rightarrow> (case solved_by_me_ids cs of Inl e \<Rightarrow> ([], h) | Inr ids \<Rightarrow> (ids, h))))"

text \<open>
  What the loop body makes of the data of one endpoint: \<open>Inr (Some ids)\<close> is a
  \<^verbatim>\<open>return\<close>, \<open>Inr None\<close> falls through to the next endpoint.
\<close>

definition read_solves :: "string \<Rightarrow> json \<Rightarrow> py_exc + json list option" where
  "read_solves ep data =
     (if ep = ''/me/solves'' \<or> py_in ''solves'' ep then
        (case data of
           JList xs \<Rightarrow> (case solves_with_id xs of Inl e \<Rightarrow> Inl e | Inr ids \<Rightarrow> Inr (Some ids))
         | _ \<Rightarrow> Inr None)
      else if ep = ''/me'' then
        (case data of
           JDict kvs \<Rightarrow>
             (case map_of kvs ''solves'' of
                None \<Rightarrow> Inr None
              | Some sv \<Rightarrow>
                  (case py_iter sv of
                     Inl e \<Rightarrow> Inl e
                   | Inr xs \<Rightarrow> (case solve_ids xs of Inl e \<Rightarrow> Inl e | Inr ids \<Rightarrow> Inr (Some ids))))
         | _ \<Rightarrow> Inr None)
      else if py_in ''submissions'' ep then
        (case data of
           JList xs \<Rightarrow> (case correct_submissions xs of Inl e \<Rightarrow> Inl e | Inr ids \<Rightarrow> Inr (Some ids))
         | _ \<Rightarrow> Inr None)
      else Inr None)"

definition endpoints_to_try :: "int option \<Rightarrow> string list" where
  "endpoints_to_try user_id =
     [''/me/solves'', ''/me'', ''/submissions/me'',
      (case user_id of None \<Rightarrow> ''/teams/me/solves'' | Some n \<Rightarrow> ''/users/'' @ str_int n @ ''/solves'')]"

fun try_endpoints ::
  "server \<Rightarrow> CTFdClient \<Rightarrow> string list \<Rightarrow> request list \<Rightarrow> (py_exc + json list) \<times> request list" where
  "try_endpoints srv c [] hist =
     (case solves_from_challenges srv c hist of (ids, h) \<Rightarrow> (Inr ids, h))"
| "try_endpoints srv c (ep # eps) hist =
     (case make_request srv c ''GET'' ep None hist of
        (Inl (CTFdAPIError e), h) \<Rightarrow> try_endpoints srv c eps h
      | (Inl exc, h) \<Rightarrow> (Inl exc, h)
      | (Inr data, h) \<Rightarrow>
          (case read_solves ep data of
             Inl exc \<Rightarrow> (Inl exc, h)
           | Inr (Some ids) \<Rightarrow> (Inr ids, h)
           | Inr None \<Rightarrow> try_endpoints srv c eps h))"

definition get_user_solves_shadowed ::
  "server \<Rightarrow> CTFdClient \<Rightarrow> int option \<Rightarrow> request list \<Rightarrow> (py_exc + json list) \<times> request list" where
  "get_user_solves_shadowed srv c user_id hist = try_endpoints srv c (endpoints_to_try user_id) hist"

section \<open>The profile store\<close>

record CTFProfile =
  name :: string
  url :: string
  profile_token :: string
  user_mode :: bool
  is_default :: bool

text \<open>
  The configuration file as \<^verbatim>\<open>load_profiles\<close> finds it: absent, not decodable as
  profiles, or holding profiles by name, in the order of the file. Whether the file can
  be written is part of the state as well.
\<close>

datatype file_content = Missing | Corrupt | Stored "(string \<times> CTFProfile) list"

record config =
  config_file :: file_content
  writable :: bool

definition load_profiles :: "config \<Rightarrow> (string \<times> CTFProfile) list" where
  "load_profiles cfg =
     (case config_file cfg of Missing \<Rightarrow> [] | Corrupt \<Rightarrow> [] | Stored ps \<Rightarrow> ps)"

text \<open>\<open>None\<close> is the exception that \<^verbatim>\<open>save_profiles\<close> prints and raises again.\<close>

definition save_profiles :: "config \<Rightarrow> (string \<times> CTFProfile) list \<Rightarrow> config option" where
  "save_profiles cfg profiles =
     (if writable cfg then Some (cfg\<lparr>config_file := Stored profiles\<rparr>) else None)"

text \<open>Assignment to a key, deletion of a key, and an update of every value of a dictionary.\<close>

fun dict_set :: "('k \<times> 'v) list \<Rightarrow> 'k \<Rightarrow> 'v \<Rightarrow> ('k \<times> 'v) list" where
  "dict_set [] k v = [(k, v)]"
| "dict_set ((k', v') # kvs) k v = (if k' = k then (k, v) # kvs else (k', v') # dict_set kvs k v)"

definition dict_del :: "('k \<times> 'v) list \<Rightarrow> 'k \<Rightarrow> ('k \<times> 'v) list" where
  "dict_del kvs k = filter (\<lambda>kv. fst kv \<noteq> k) kvs"

definition clear_defaults :: "(string \<times> CTFProfile) list \<Rightarrow> (string \<times> CTFProfile) list" where
  "clear_defaults profiles = map (\<lambda>kv. (fst kv, (snd kv)\<lparr>is_default := False\<rparr>)) profiles"

text \<open>
  The validation of the URL field by the validation library is a parameter: the text kept
  for an accepted URL, \<open>None\<close> for a rejected one. The functions return their boolean
  result and the configuration they leave behind. The messages that they print on their
  failure paths are not part of the model.
\<close>

definition add_profile ::
  "(string \<Rightarrow> string option) \<Rightarrow> config \<Rightarrow> string \<Rightarrow> string \<Rightarrow> string \<Rightarrow> bool \<Rightarrow> bool
     \<Rightarrow> bool \<times> config" where
  "add_profile http_url cfg nm u tok um set_default =
     (let profiles = load_profiles cfg;
          profiles1 = (if set_default then clear_defaults profiles else profiles)
      in case http_url u of
           None \<Rightarrow> (False, cfg)
         | Some u' \<Rightarrow>
             (let profile = \<lparr>name = nm, url = u', profile_token = tok, user_mode = um,
                             is_default = (set_default \<or> length profiles1 = 0)\<rparr>
              in case save_profiles cfg (dict_set profiles1 nm profile) of
                   None \<Rightarrow> (False, cfg)
                 | Some cfg' \<Rightarrow> (True, cfg')))"

definition delete_profile :: "config \<Rightarrow> string \<Rightarrow> bool \<times> config" where
  "delete_profile cfg nm =
     (let profiles = load_profiles cfg
      in case map_of profiles nm of
           None \<Rightarrow> (False, cfg)
         | Some p \<Rightarrow>
             (let was_default = is_default p;
                  profiles1 = dict_del profiles nm;
                  profiles2 = (case profiles1 of
                                 (k, first_profile) # rest \<Rightarrow>
                                   if was_default then (k, first_profile\<lparr>is_default := True\<rparr>) # rest
                                   else profiles1
                               | [] \<Rightarrow> profiles1)
              in case save_profiles cfg profiles2 of
                   None \<Rightarrow> (False, cfg)
                 | Some cfg' \<Rightarrow> (True, cfg')))"

definition set_default_profile :: "config \<Rightarrow> string \<Rightarrow> bool \<times> config" where
  "set_default_profile cfg nm =
     (let profiles = load_profiles cfg
      in case map_of profiles nm of
           None \<Rightarrow> (False, cfg)
         | Some p \<Rightarrow>
             (case save_profiles cfg (dict_set (clear_defaults profiles) nm (p\<lparr>is_default := True\<rparr>)) of
                None \<Rightarrow> (False, cfg)
              | Some cfg' \<Rightarrow> (True, cfg')))"

text \<open>The number of profiles of a dictionary that are marked as the default.\<close>

definition count_defaults :: "(string \<times> CTFProfile) list \<Rightarrow> nat" where
  "count_defaults ps = length (filter (\<lambda>kv. is_default (snd kv)) ps)"

text \<open>The number of stored profiles that are marked as the default.\<close>

definition default_count :: "config \<Rightarrow> nat" where
  "default_count cfg = length (filter (\<lambda>kv. is_default (snd kv)) (load_profiles cfg))"

text \<open>
  The text of the \<^verbatim>\<open>CTFdAPIError\<close> that \<^verbatim>\<open>_make_request\<close> raises for a response with an
  error status.
\<close>

definition http_error_message :: "response \<Rightarrow> string" where
  "http_error_message r =
     ''Request failed: '' @ (case raise_for_status r of None \<Rightarrow> [] | Some e \<Rightarrow> e)"

section \<open>Properties of the request helper and of flag submission\<close>

lemma py_in_self_prefix: "py_in sub (sub @ rest)"
proof (cases "sub @ rest")
  case Nil
  then show ?thesis by simp
next
  case (Cons a list)
  have "prefix sub (sub @ rest)" by simp
  with Cons show ?thesis by simp
qed

lemma py_in_append: "py_in sub (pre @ sub @ rest)"
  by (induction pre) (auto simp: py_in_self_prefix)

lemma str_nat_403: "str_nat 403 = ''403''"
  by code_simp

lemma str_nat_404: "str_nat 404 = ''404''"
  by code_simp

text \<open>
  C3: if the first candidate endpoint, \<^verbatim>\<open>POST /challenges/attempt\<close>, is asked (the line
  that announces the attempt is printed) and answers with the body
  \<^verbatim>\<open>{"status": "correct", "message": "Correct"}\<close>, then \<^verbatim>\<open>submit_flag\<close> returns
  \<^verbatim>\<open>(True, "Correct")\<close> and has made exactly that one request.
\<close>

theorem submit_flag_correct_first:
  assumes "console (trying_line
             \<lparr>endpoint = ''/challenges/attempt'',
              payload = JDict [(''challenge_id'', JInt challenge_id), (''submission'', JStr flag)]\<rparr>)"
    and "srv hist (build_request c ''POST'' ''/challenges/attempt''
             (Some (JDict [(''challenge_id'', JInt challenge_id), (''submission'', JStr flag)]))) = Responded r"
    and "raise_for_status r = None"
    and "content r = Json (JDict [(''status'', JStr ''correct''), (''message'', JStr ''Correct'')])"
  shows "submit_flag console srv c challenge_id flag hist =
           (Inr (True, JStr ''Correct''),
            hist @ [build_request c ''POST'' ''/challenges/attempt''
               (Some (JDict [(''challenge_id'', JInt challenge_id), (''submission'', JStr flag)]))])"
  using assms
  by (simp add: submit_flag_def submission_attempts_def make_request_def read_response_def
      unwrap_def classify_def dict_get_def dict_has_def)

theorem submit_flag_correct_first_witness:
  "submit_flag plain_console
     (\<lambda>hist req. Responded \<lparr>status_code = 200, reason = ''OK'', resp_url = req_url req,
        content = Json (JDict [(''status'', JStr ''correct''), (''message'', JStr ''Correct'')])\<rparr>)
     (CTFdClient_init ''http://ctf.example.com/'' ''token'' 30) 7 ''flag{ok}'' []
   = (Inr (True, JStr ''Correct''),
      [\<lparr>req_method = ''POST'', req_url = ''http://ctf.example.com/api/v1/challenges/attempt'',
        req_auth = ''Token token'',
        req_json = Some (JDict [(''challenge_id'', JInt 7), (''submission'', JStr ''flag{ok}'')])\<rparr>])"
proof -
  have p: "plain_console (trying_line
             \<lparr>endpoint = ''/challenges/attempt'',
              payload = JDict [(''challenge_id'', JInt 7), (''submission'', JStr ''flag{ok}'')]\<rparr>)"
    by code_simp
  show ?thesis
    using submit_flag_correct_first
      [of plain_console 7 "''flag{ok}''"
          "\<lambda>hist req. Responded \<lparr>status_code = 200, reason = ''OK'', resp_url = req_url req,
             content = Json (JDict [(''status'', JStr ''correct''), (''message'', JStr ''Correct'')])\<rparr>"
          "[]" "CTFdClient_init ''http://ctf.example.com/'' ''token'' 30"
          "\<lparr>status_code = 200, reason = ''OK'',
            resp_url = ''http://ctf.example.com/api/v1/challenges/attempt'',
            content = Json (JDict [(''status'', JStr ''correct''), (''message'', JStr ''Correct'')])\<rparr>"]
      p
    by (simp add: raise_for_status_def build_request_def CTFdClient_init_def rstrip_def lstrip_def)
qed

text \<open>
  When the console raises on the line that announces the first attempt, the exception
  leaves \<^verbatim>\<open>submit_flag\<close> before any request is made.
\<close>

lemma submit_flag_line_not_printed:
  assumes "\<not> console (trying_line
             \<lparr>endpoint = ''/challenges/attempt'',
              payload = JDict [(''challenge_id'', JInt challenge_id), (''submission'', JStr flag)]\<rparr>)"
  shows "submit_flag console srv c challenge_id flag hist = (Inl MarkupError, hist)"
  using assms by (simp add: submit_flag_def submission_attempts_def)

text \<open>
  C7: \<^verbatim>\<open>test_connection\<close> is meant to answer with a boolean whatever the fetch of
  \<^verbatim>\<open>/challenges\<close> gives. When the server answers 200 with a body that decodes to a JSON
  array, \<^verbatim>\<open>data.get\<close> raises \<^verbatim>\<open>AttributeError\<close> in the request helper; no handler
  catches it, and it leaves \<^verbatim>\<open>test_connection\<close>.
\<close>

theorem test_connection_raises:
  "test_connection
     (\<lambda>hist req. Responded \<lparr>status_code = 200, reason = ''OK'', resp_url = req_url req,
                             content = Json (JList [])\<rparr>)
     (CTFdClient_init ''http://ctf.example.com'' ''token'' 30) []
   = (Inl AttributeError,
      [\<lparr>req_method = ''GET'', req_url = ''http://ctf.example.com/api/v1/challenges'',
        req_auth = ''Token token'', req_json = None\<rparr>])"
  by (simp add: test_connection_def make_request_def read_response_def raise_for_status_def
      unwrap_def build_request_def CTFdClient_init_def rstrip_def lstrip_def)

text \<open>
  For every other outcome of the fetch, that is, unless a response without an error
  status carries a body that decodes to something else than an object,
  \<^verbatim>\<open>test_connection\<close> does return a boolean, after its one request.
\<close>

lemma test_connection_boolean:
  assumes "\<And>r j. srv hist (build_request c ''GET'' ''/challenges'' None) = Responded r \<Longrightarrow>
             raise_for_status r = None \<Longrightarrow> content r = Json j \<Longrightarrow> \<exists>kvs. j = JDict kvs"
  shows "\<exists>b. test_connection srv c hist =
           (Inr b, hist @ [build_request c ''GET'' ''/challenges'' None])"
proof (cases "srv hist (build_request c ''GET'' ''/challenges'' None)")
  case (RequestException e)
  then show ?thesis by (auto simp: test_connection_def make_request_def)
next
  case (Responded r)
  show ?thesis
  proof (cases "raise_for_status r")
    case (Some e)
    with Responded show ?thesis
      by (auto simp: test_connection_def make_request_def read_response_def)
  next
    case None
    show ?thesis
    proof (cases "content r")
      case NoContent
      with Responded None show ?thesis
        by (auto simp: test_connection_def make_request_def read_response_def)
    next
      case (NotJson k e)
      with Responded None show ?thesis
        by (cases k) (auto simp: test_connection_def make_request_def read_response_def)
    next
      case (Json j)
      from assms [OF Responded None Json] obtain kvs where "j = JDict kvs" ..
      with Responded None Json show ?thesis
        by (auto simp: test_connection_def make_request_def read_response_def unwrap_def)
    qed
  qed
qed

text \<open>
  C1: an error with a status other than 403 and 404 is meant to end the submission at
  once. The loop recognises 403 and 404 by searching the error text for these digits, and
  the text of an HTTP error holds the URL. With an instance on port 4040, a 400 answer of
  the first candidate is taken for a 404: all four candidates are tried, and the result
  is the message of the exhausted search.
\<close>

theorem submit_flag_400_not_final:
  "submit_flag plain_console
     (\<lambda>hist req. Responded \<lparr>status_code = 400, reason = ''Bad Request'', resp_url = req_url req,
                             content = NoContent\<rparr>)
     (CTFdClient_init ''http://ctf.example.com:4040'' ''token'' 30) 1 ''flag{x}'' []
   = (Inr (False, JStr ''Could not find working submission endpoint. Last error: Request failed: 400 Client Error: Bad Request for url: http://ctf.example.com:4040/api/v1/submissions''),
      map (\<lambda>a. build_request (CTFdClient_init ''http://ctf.example.com:4040'' ''token'' 30)
                 ''POST'' (endpoint a) (Some (payload a)))
        (submission_attempts 1 ''flag{x}''))"
  by code_simp

text \<open>
  What the loop does decide on is the text of the error: an error of the first candidate
  whose text contains neither \<^verbatim>\<open>404\<close> nor \<^verbatim>\<open>403\<close> is returned at once, after one
  request, when the two lines of that attempt are printed.
\<close>

lemma make_request_history:
  "snd (make_request srv c method ep js hist) = hist @ [build_request c method ep js]"
  by (simp add: make_request_def Let_def)

lemma submit_flag_error_final:
  assumes "fst (make_request srv c ''POST'' ''/challenges/attempt''
             (Some (JDict [(''challenge_id'', JInt challenge_id), (''submission'', JStr flag)])) hist)
           = Inl (CTFdAPIError e)"
    and "\<not> py_in ''404'' e" and "\<not> py_in ''403'' e"
    and "console (trying_line
             \<lparr>endpoint = ''/challenges/attempt'',
              payload = JDict [(''challenge_id'', JInt challenge_id), (''submission'', JStr flag)]\<rparr>)"
    and "console (failed_line
             \<lparr>endpoint = ''/challenges/attempt'',
              payload = JDict [(''challenge_id'', JInt challenge_id), (''submission'', JStr flag)]\<rparr> e)"
  shows "submit_flag console srv c challenge_id flag hist =
           (Inr (False, JStr e),
            hist @ [build_request c ''POST'' ''/challenges/attempt''
              (Some (JDict [(''challenge_id'', JInt challenge_id), (''submission'', JStr flag)]))])"
proof -
  let ?js = "Some (JDict [(''challenge_id'', JInt challenge_id), (''submission'', JStr flag)])"
  have "make_request srv c ''POST'' ''/challenges/attempt'' ?js hist =
          (Inl (CTFdAPIError e), hist @ [build_request c ''POST'' ''/challenges/attempt'' ?js])"
    using assms(1) make_request_history [of srv c "''POST''" "''/challenges/attempt''" ?js hist]
    by (cases "make_request srv c ''POST'' ''/challenges/attempt'' ?js hist") simp
  then show ?thesis
    using assms(2-) by (simp add: submit_flag_def submission_attempts_def)
qed

lemma read_response_rejected:
  assumes "status_code r = 403 \<or> status_code r = 404"
  shows "read_response r = Inl (CTFdAPIError (http_error_message r))"
  using assms by (auto simp: read_response_def raise_for_status_def http_error_message_def)

lemma rejected_text:
  assumes "status_code r = 403 \<or> status_code r = 404"
  shows "py_in ''404'' (http_error_message r) \<or> py_in ''403'' (http_error_message r)"
proof -
  have "py_in (str_nat (status_code r)) (''Request failed: '' @ str_nat (status_code r) @ '' Client Error: '' @ reason r @ '' for url: '' @ resp_url r)"
    by (rule py_in_append)
  moreover have "http_error_message r = ''Request failed: '' @ str_nat (status_code r) @ '' Client Error: '' @ reason r @ '' for url: '' @ resp_url r"
    using assms by (auto simp: raise_for_status_def http_error_message_def)
  ultimately have "py_in (str_nat (status_code r)) (http_error_message r)"
    by simp
  with assms show ?thesis
    by (auto simp: str_nat_403 str_nat_404)
qed

lemma try_attempts_rejected:
  assumes "srv hist (build_request c ''POST'' (endpoint a) (Some (payload a))) = Responded r"
    and "status_code r = 403 \<or> status_code r = 404"
    and "console (trying_line a)" and "console (failed_line a (http_error_message r))"
  shows "try_attempts console srv c (a # rest) le hist =
           try_attempts console srv c rest (Some (http_error_message r))
             (hist @ [build_request c ''POST'' (endpoint a) (Some (payload a))])"
  using assms(1,3,4) read_response_rejected [OF assms(2)] rejected_text [OF assms(2)]
  by (auto simp: make_request_def)

text \<open>
  C4, as the code has it: when all four candidates are answered with status 403 or 404,
  and the console prints the lines of the loop, \<^verbatim>\<open>submit_flag\<close> returns false, after
  exactly these four requests, with the message that submission is not allowed when the
  text of the last error contains \<^verbatim>\<open>403\<close>, and otherwise with
  \<^verbatim>\<open>Could not find working submission endpoint. Last error: \<close> followed by the text of
  the last error.
\<close>

theorem submit_flag_exhausted:
  assumes "map (\<lambda>a. build_request c ''POST'' (endpoint a) (Some (payload a)))
             (submission_attempts challenge_id flag) = [q1, q2, q3, q4]"
    and "srv hist q1 = Responded r1" and "status_code r1 = 403 \<or> status_code r1 = 404"
    and "srv (hist @ [q1]) q2 = Responded r2" and "status_code r2 = 403 \<or> status_code r2 = 404"
    and "srv (hist @ [q1, q2]) q3 = Responded r3" and "status_code r3 = 403 \<or> status_code r3 = 404"
    and "srv (hist @ [q1, q2, q3]) q4 = Responded r4" and "status_code r4 = 403 \<or> status_code r4 = 404"
    and "list_all (\<lambda>a. console (trying_line a)) (submission_attempts challenge_id flag)"
    and "list_all2 (\<lambda>a r. console (failed_line a (http_error_message r)))
           (submission_attempts challenge_id flag) [r1, r2, r3, r4]"
  shows "submit_flag console srv c challenge_id flag hist =
           (Inr (False,
              JStr (if py_in ''403'' (http_error_message r4)
                    then ''Flag submission not allowed - this CTFd instance may not support API submissions or requires different permissions''
                    else ''Could not find working submission endpoint. Last error: '' @ http_error_message r4)),
            hist @ [q1, q2, q3, q4])"
proof -
  obtain a1 a2 a3 a4 where as: "submission_attempts challenge_id flag = [a1, a2, a3, a4]"
    by (simp add: submission_attempts_def)
  from assms(1) as have q:
    "q1 = build_request c ''POST'' (endpoint a1) (Some (payload a1))"
    "q2 = build_request c ''POST'' (endpoint a2) (Some (payload a2))"
    "q3 = build_request c ''POST'' (endpoint a3) (Some (payload a3))"
    "q4 = build_request c ''POST'' (endpoint a4) (Some (payload a4))"
    by simp_all
  from assms(10) as have t:
    "console (trying_line a1)" "console (trying_line a2)"
    "console (trying_line a3)" "console (trying_line a4)"
    by simp_all
  from assms(11) as have f:
    "console (failed_line a1 (http_error_message r1))"
    "console (failed_line a2 (http_error_message r2))"
    "console (failed_line a3 (http_error_message r3))"
    "console (failed_line a4 (http_error_message r4))"
    by simp_all
  have s1: "try_attempts console srv c [a1, a2, a3, a4] None hist =
            try_attempts console srv c [a2, a3, a4] (Some (http_error_message r1)) (hist @ [q1])"
    using try_attempts_rejected [of srv hist c a1 r1 console] assms(2,3) q(1) t(1) f(1) by simp
  have s2: "try_attempts console srv c [a2, a3, a4] (Some (http_error_message r1)) (hist @ [q1]) =
            try_attempts console srv c [a3, a4] (Some (http_error_message r2)) (hist @ [q1, q2])"
    using try_attempts_rejected [of srv "hist @ [q1]" c a2 r2 console] assms(4,5) q(2) t(2) f(2) by simp
  have s3: "try_attempts console srv c [a3, a4] (Some (http_error_message r2)) (hist @ [q1, q2]) =
            try_attempts console srv c [a4] (Some (http_error_message r3)) (hist @ [q1, q2, q3])"
    using try_attempts_rejected [of srv "hist @ [q1, q2]" c a3 r3 console] assms(6,7) q(3) t(3) f(3) by simp
  have s4: "try_attempts console srv c [a4] (Some (http_error_message r3)) (hist @ [q1, q2, q3]) =
            try_attempts console srv c [] (Some (http_error_message r4)) (hist @ [q1, q2, q3, q4])"
    using try_attempts_rejected [of srv "hist @ [q1, q2, q3]" c a4 r4 console] assms(8,9) q(4) t(4) f(4) by simp
  have ne: "http_error_message r4 \<noteq> []"
    by (simp add: http_error_message_def)
  show ?thesis
    unfolding submit_flag_def as s1 s2 s3 s4
    using ne by (simp add: exhausted_def)
qed

theorem submit_flag_exhausted_witness:
  "submit_flag plain_console
     (\<lambda>hist req. Responded \<lparr>status_code = 403, reason = ''Forbidden'', resp_url = req_url req,
                             content = NoContent\<rparr>)
     (CTFdClient_init ''http://ctf.example.com'' ''token'' 30) 1 ''flag{x}'' []
   = (Inr (False, JStr ''Flag submission not allowed - this CTFd instance may not support API submissions or requires different permissions''),
      map (\<lambda>a. build_request (CTFdClient_init ''http://ctf.example.com'' ''token'' 30)
                 ''POST'' (endpoint a) (Some (payload a)))
        (submission_attempts 1 ''flag{x}''))"
proof -
  let ?c = "CTFdClient_init ''http://ctf.example.com'' ''token'' 30"
  let ?srv = "\<lambda>hist req. Responded \<lparr>status_code = 403, reason = ''Forbidden'',
                 resp_url = req_url req, content = NoContent\<rparr>"
  let ?q1 = "build_request ?c ''POST'' ''/challenges/attempt''
               (Some (JDict [(''challenge_id'', JInt 1), (''submission'', JStr ''flag{x}'')]))"
  let ?q2 = "build_request ?c ''POST'' (''/challenges/'' @ str_int 1 @ ''/attempts'')
               (Some (JDict [(''submission'', JStr ''flag{x}'')]))"
  let ?q3 = "build_request ?c ''POST'' ''/submissions''
               (Some (JDict [(''challenge_id'', JInt 1), (''submission'', JStr ''flag{x}'')]))"
  let ?q4 = "build_request ?c ''POST'' ''/submissions''
               (Some (JDict [(''challenge'', JInt 1), (''flag'', JStr ''flag{x}'')]))"
  let ?r = "\<lambda>q. \<lparr>status_code = 403, reason = ''Forbidden'', resp_url = req_url q,
                    content = NoContent\<rparr>"
  have qs: "map (\<lambda>a. build_request ?c ''POST'' (endpoint a) (Some (payload a)))
              (submission_attempts 1 ''flag{x}'') = [?q1, ?q2, ?q3, ?q4]"
    by (simp add: submission_attempts_def)
  have t: "py_in ''403'' (http_error_message (?r ?q4))"
    using py_in_append [of "''403''" "''Request failed: ''"]
    by (simp add: http_error_message_def raise_for_status_def str_nat_403)
  have p1: "list_all (\<lambda>a. plain_console (trying_line a)) (submission_attempts 1 ''flag{x}'')"
    by code_simp
  have p2: "list_all2 (\<lambda>a r. plain_console (failed_line a (http_error_message r)))
              (submission_attempts 1 ''flag{x}'') [?r ?q1, ?r ?q2, ?r ?q3, ?r ?q4]"
    by code_simp
  show ?thesis
    using submit_flag_exhausted [where c = ?c and challenge_id = 1 and flag = "''flag{x}''"
        and ?q1.0 = ?q1 and ?q2.0 = ?q2 and ?q3.0 = ?q3 and ?q4.0 = ?q4 and srv = ?srv and hist = "[]"
        and ?r1.0 = "?r ?q1" and ?r2.0 = "?r ?q2" and ?r3.0 = "?r ?q3" and ?r4.0 = "?r ?q4"
        and console = plain_console] qs t p1 p2
    by simp
qed

text \<open>
  C4 as stated asks for a message that contains \<^verbatim>\<open>no working submission endpoint\<close>.
  With 404 on all four candidates the message of the code does not contain that text.
\<close>

theorem submit_flag_all_404_text:
  "fst (submit_flag plain_console
     (\<lambda>hist req. Responded \<lparr>status_code = 404, reason = ''Not Found'', resp_url = req_url req,
                             content = NoContent\<rparr>)
     (CTFdClient_init ''http://ctf.example.com'' ''token'' 30) 1 ''flag{x}'' [])
   = Inr (False, JStr ''Could not find working submission endpoint. Last error: Request failed: 404 Client Error: Not Found for url: http://ctf.example.com/api/v1/submissions'')
   \<and> \<not> py_in ''no working submission endpoint''
         ''Could not find working submission endpoint. Last error: Request failed: 404 Client Error: Not Found for url: http://ctf.example.com/api/v1/submissions''"
  by code_simp

lemma truthy_iff: "truthy v \<longleftrightarrow> v \<notin> {JBool False, JNull, JInt 0, JStr [], JList [], JDict []}"
  by (cases v) auto

text \<open>
  C2, as the code has it: for a response without an error status, an empty body gives the
  empty object; a body that decodes to an object with a \<^verbatim>\<open>success\<close> key whose value
  is false in a truth test (false, null, zero, or an empty string, list or object) gives
  the API error that carries the message of the body, \<^verbatim>\<open>Unknown error\<close> when there is
  none; any other object gives the value under its \<^verbatim>\<open>data\<close> key if it has one, and
  else the whole object unchanged.
\<close>

theorem make_request_envelope:
  assumes "srv hist (build_request c method ep js) = Responded r"
    and "raise_for_status r = None"
  shows "(content r = NoContent \<longrightarrow> fst (make_request srv c method ep js hist) = Inr (JDict []))
       \<and> (content r = Json (JDict kvs) \<longrightarrow>
            fst (make_request srv c method ep js hist) =
              (if (case map_of kvs ''success'' of
                     None \<Rightarrow> False
                   | Some v \<Rightarrow> v \<in> {JBool False, JNull, JInt 0, JStr [], JList [], JDict []})
               then Inl (CTFdAPIError (''API Error: '' @ py_str (dict_get kvs ''message'' (JStr ''Unknown error''))))
               else Inr (dict_get kvs ''data'' (JDict kvs))))"
proof (intro conjI impI)
  assume "content r = NoContent"
  with assms show "fst (make_request srv c method ep js hist) = Inr (JDict [])"
    by (simp add: make_request_def read_response_def)
next
  assume b: "content r = Json (JDict kvs)"
  have "fst (make_request srv c method ep js hist) = unwrap (JDict kvs)"
    using assms b by (simp add: make_request_def read_response_def)
  also have "\<dots> = (if (case map_of kvs ''success'' of
                     None \<Rightarrow> False
                   | Some v \<Rightarrow> v \<in> {JBool False, JNull, JInt 0, JStr [], JList [], JDict []})
               then Inl (CTFdAPIError (''API Error: '' @ py_str (dict_get kvs ''message'' (JStr ''Unknown error''))))
               else Inr (dict_get kvs ''data'' (JDict kvs)))"
  proof (cases "map_of kvs ''success''")
    case None
    then show ?thesis by (simp add: unwrap_def dict_get_def)
  next
    case (Some v)
    then show ?thesis using truthy_iff [of v] by (simp add: unwrap_def dict_get_def)
  qed
  finally show "fst (make_request srv c method ep js hist) = (if (case map_of kvs ''success'' of
                     None \<Rightarrow> False
                   | Some v \<Rightarrow> v \<in> {JBool False, JNull, JInt 0, JStr [], JList [], JDict []})
               then Inl (CTFdAPIError (''API Error: '' @ py_str (dict_get kvs ''message'' (JStr ''Unknown error''))))
               else Inr (dict_get kvs ''data'' (JDict kvs)))" .
qed

theorem make_request_envelope_witness:
  "fst (make_request
     (\<lambda>hist req. Responded \<lparr>status_code = 200, reason = ''OK'', resp_url = req_url req,
        content = Json (JDict [(''success'', JBool False), (''message'', JStr ''Invalid token'')])\<rparr>)
     (CTFdClient_init ''http://ctf.example.com'' ''token'' 30) ''GET'' ''/challenges'' None [])
   = Inl (CTFdAPIError ''API Error: Invalid token'')"
  using make_request_envelope
    [of "\<lambda>hist req. Responded \<lparr>status_code = 200, reason = ''OK'', resp_url = req_url req,
           content = Json (JDict [(''success'', JBool False), (''message'', JStr ''Invalid token'')])\<rparr>"
        "[]" "CTFdClient_init ''http://ctf.example.com'' ''token'' 30" "''GET''" "''/challenges''" None
        "\<lparr>status_code = 200, reason = ''OK'',
          resp_url = req_url (build_request (CTFdClient_init ''http://ctf.example.com'' ''token'' 30)
                       ''GET'' ''/challenges'' None),
          content = Json (JDict [(''success'', JBool False), (''message'', JStr ''Invalid token'')])\<rparr>"
        "[(''success'', JBool False), (''message'', JStr ''Invalid token'')]"]
  by (simp add: raise_for_status_def dict_get_def)

text \<open>
  C2 as stated raises the error only for a \<^verbatim>\<open>success\<close> key equal to false, and returns
  the value under \<^verbatim>\<open>data\<close> otherwise. A body with \<^verbatim>\<open>success\<close> null and a \<^verbatim>\<open>data\<close>
  key raises the error.
\<close>

theorem make_request_null_success:
  "map_of [(''success'', JNull), (''data'', JInt 5)] ''success'' \<noteq> Some (JBool False)
   \<and> map_of [(''success'', JNull), (''data'', JInt 5)] ''data'' = Some (JInt 5)
   \<and> fst (make_request
       (\<lambda>hist req. Responded \<lparr>status_code = 200, reason = ''OK'', resp_url = req_url req,
          content = Json (JDict [(''success'', JNull), (''data'', JInt 5)])\<rparr>)
       (CTFdClient_init ''http://ctf.example.com'' ''token'' 30) ''GET'' ''/challenges'' None [])
     = Inl (CTFdAPIError ''API Error: Unknown error'')"
  by (simp add: make_request_def read_response_def raise_for_status_def unwrap_def dict_get_def)

section \<open>Properties of the profile store\<close>

lemma default_count_eq: "default_count cfg = count_defaults (load_profiles cfg)"
  by (simp add: default_count_def count_defaults_def)

lemma load_stored [simp]: "load_profiles (cfg\<lparr>config_file := Stored ps\<rparr>) = ps"
  by (simp add: load_profiles_def)

lemma count_defaults_simps [simp]:
  "count_defaults [] = 0"
  "count_defaults (kv # ps) = (if is_default (snd kv) then 1 else 0) + count_defaults ps"
  by (simp_all add: count_defaults_def)

lemma count_clear_defaults [simp]: "count_defaults (clear_defaults ps) = 0"
  by (induction ps) (simp_all add: clear_defaults_def)

lemma count_dict_set_le:
  "count_defaults (dict_set ps k p) \<le> count_defaults ps + (if is_default p then 1 else 0)"
  by (induction ps) auto

lemma count_dict_set_zero:
  "count_defaults ps = 0 \<Longrightarrow> count_defaults (dict_set ps k p) = (if is_default p then 1 else 0)"
  by (induction ps) (auto split: if_splits)

lemma count_dict_del_le: "count_defaults (dict_del ps k) \<le> count_defaults ps"
  by (induction ps) (auto simp: dict_del_def)

lemma count_dict_del_default:
  "map_of ps k = Some p \<Longrightarrow> is_default p \<Longrightarrow> count_defaults (dict_del ps k) < count_defaults ps"
proof (induction ps)
  case Nil
  then show ?case by simp
next
  case (Cons kv ps)
  show ?case
  proof (cases "fst kv = k")
    case True
    with Cons.prems have "is_default (snd kv)" by (cases kv) auto
    moreover have "count_defaults (dict_del (kv # ps) k) = count_defaults (dict_del ps k)"
      using True by (simp add: dict_del_def)
    ultimately show ?thesis using count_dict_del_le [of ps k] by simp
  next
    case False
    with Cons.prems have "map_of ps k = Some p" by (cases kv) auto
    from Cons.IH [OF this Cons.prems(2)] False show ?thesis
      by (simp add: dict_del_def)
  qed
qed

lemma add_profile_count:
  assumes "count_defaults (load_profiles cfg) \<le> 1"
  shows "default_count (snd (add_profile http_url cfg nm u tok um sd)) \<le> 1"
proof (cases "http_url u")
  case None
  then show ?thesis using assms by (simp add: add_profile_def default_count_eq)
next
  case (Some u')
  show ?thesis
  proof (cases "writable cfg")
    case False
    then show ?thesis using assms Some
      by (simp add: add_profile_def save_profiles_def default_count_eq Let_def)
  next
    case True
    show ?thesis
    proof (cases sd)
      case True
      then show ?thesis using Some \<open>writable cfg\<close>
        by (simp add: add_profile_def save_profiles_def default_count_eq Let_def count_dict_set_zero)
    next
      case False
      show ?thesis
      proof (cases "load_profiles cfg")
        case Nil
        then show ?thesis using Some \<open>writable cfg\<close> False
          by (simp add: add_profile_def save_profiles_def default_count_eq Let_def)
      next
        case (Cons kv ps)
        let ?p = "\<lparr>name = nm, url = u', profile_token = tok, user_mode = um, is_default = False\<rparr>"
        have "count_defaults (dict_set (load_profiles cfg) nm ?p) \<le> 1"
          using count_dict_set_le [of "load_profiles cfg" nm ?p] assms by simp
        then show ?thesis using Some \<open>writable cfg\<close> False Cons
          by (simp add: add_profile_def save_profiles_def default_count_eq Let_def)
      qed
    qed
  qed
qed

lemma add_profile_default_one:
  assumes "fst (add_profile http_url cfg nm u tok um True)"
  shows "default_count (snd (add_profile http_url cfg nm u tok um True)) = 1"
  using assms
  by (auto simp: add_profile_def save_profiles_def default_count_eq Let_def count_dict_set_zero split: option.splits if_splits)

lemma set_default_profile_count:
  assumes "count_defaults (load_profiles cfg) \<le> 1"
  shows "default_count (snd (set_default_profile cfg nm)) \<le> 1"
  using assms
  by (auto simp: set_default_profile_def save_profiles_def default_count_eq Let_def count_dict_set_zero split: option.splits if_splits)

lemma delete_profile_count:
  assumes "count_defaults (load_profiles cfg) \<le> 1"
  shows "default_count (snd (delete_profile cfg nm)) \<le> 1"
proof (cases "map_of (load_profiles cfg) nm")
  case None
  then show ?thesis using assms by (simp add: delete_profile_def default_count_eq)
next
  case (Some p)
  show ?thesis
  proof (cases "writable cfg")
    case False
    then show ?thesis using assms Some
      by (simp add: delete_profile_def save_profiles_def default_count_eq Let_def)
  next
    case True
    show ?thesis
    proof (cases "is_default p")
      case False
      have "count_defaults (dict_del (load_profiles cfg) nm) \<le> 1"
        using count_dict_del_le [of "load_profiles cfg" nm] assms by simp
      then show ?thesis using Some True False
        by (cases "dict_del (load_profiles cfg) nm")
           (auto simp: delete_profile_def save_profiles_def default_count_eq Let_def)
    next
      case d: True
      have z: "count_defaults (dict_del (load_profiles cfg) nm) = 0"
        using count_dict_del_default [OF Some d] assms by simp
      show ?thesis
      proof (cases "dict_del (load_profiles cfg) nm")
        case Nil
        then show ?thesis using Some True d
          by (simp add: delete_profile_def save_profiles_def default_count_eq Let_def)
      next
        case (Cons kv rest)
        with z have "count_defaults rest = 0" by (simp split: if_splits)
        then show ?thesis using Some True d Cons
          by (cases kv) (simp add: delete_profile_def save_profiles_def default_count_eq Let_def)
      qed
    qed
  qed
qed

text \<open>
  C6, as the code has it: among the stored profiles at most one is marked as the default,
  and \<^verbatim>\<open>add_profile\<close>, \<^verbatim>\<open>delete_profile\<close> and \<^verbatim>\<open>set_default_profile\<close> preserve this,
  whether they succeed or fail; after an \<^verbatim>\<open>add_profile\<close> with \<^verbatim>\<open>set_default=True\<close> that
  succeeds, exactly one stored profile is marked as the default.
\<close>

theorem default_at_most_one:
  assumes "default_count cfg \<le> 1"
  shows "default_count (snd (add_profile http_url cfg nm u tok um sd)) \<le> 1
       \<and> default_count (snd (delete_profile cfg nm)) \<le> 1
       \<and> default_count (snd (set_default_profile cfg nm)) \<le> 1
       \<and> (fst (add_profile http_url cfg nm u tok um True) \<longrightarrow>
            default_count (snd (add_profile http_url cfg nm u tok um True)) = 1)"
  using assms add_profile_count [of cfg http_url nm u tok um sd] delete_profile_count [of cfg nm]
    set_default_profile_count [of cfg nm] add_profile_default_one [of http_url cfg nm u tok um]
  by (simp add: default_count_eq)

theorem default_at_most_one_witness:
  "default_count
     (snd (add_profile Some
        \<lparr>config_file = Stored
           [(''a'', \<lparr>name = ''a'', url = ''http://a.example.com'', profile_token = ''ta'',
                     user_mode = True, is_default = True\<rparr>),
            (''b'', \<lparr>name = ''b'', url = ''http://b.example.com'', profile_token = ''tb'',
                     user_mode = True, is_default = False\<rparr>)],
          writable = True\<rparr>
        ''c'' ''http://c.example.com'' ''tc'' True True)) = 1"
  using default_at_most_one
    [of "\<lparr>config_file = Stored
           [(''a'', \<lparr>name = ''a'', url = ''http://a.example.com'', profile_token = ''ta'',
                     user_mode = True, is_default = True\<rparr>),
            (''b'', \<lparr>name = ''b'', url = ''http://b.example.com'', profile_token = ''tb'',
                     user_mode = True, is_default = False\<rparr>)],
          writable = True\<rparr>"
        Some "''c''" "''http://c.example.com''" "''tc''" True True]
  by (simp add: default_count_def load_profiles_def add_profile_def save_profiles_def)

text \<open>
  C6 as stated has exactly one default at any time. Deleting the only profile of a store
  leaves a store with no default.
\<close>

theorem delete_last_profile_no_default:
  "default_count
     \<lparr>config_file = Stored
        [(''a'', \<lparr>name = ''a'', url = ''http://a.example.com'', profile_token = ''ta'',
                  user_mode = True, is_default = True\<rparr>)],
       writable = True\<rparr> = 1
   \<and> delete_profile
     \<lparr>config_file = Stored
        [(''a'', \<lparr>name = ''a'', url = ''http://a.example.com'', profile_token = ''ta'',
                  user_mode = True, is_default = True\<rparr>)],
       writable = True\<rparr> ''a''
     = (True, \<lparr>config_file = Stored [], writable = True\<rparr>)
   \<and> default_count \<lparr>config_file = Stored [], writable = True\<rparr> = 0"
  by (simp add: default_count_def load_profiles_def delete_profile_def save_profiles_def dict_del_def)

text \<open>
  C9: when \<^verbatim>\<open>add_profile\<close> is called on an empty store (the URL is accepted and the
  file can be written), it succeeds, and the store then holds the new profile alone,
  marked as the default, whatever \<^verbatim>\<open>set_default\<close> is.
\<close>

theorem first_profile_is_default:
  assumes "load_profiles cfg = []" and "writable cfg" and "http_url u = Some u'"
  shows "add_profile http_url cfg nm u tok um sd =
           (True, cfg\<lparr>config_file := Stored
              [(nm, \<lparr>name = nm, url = u', profile_token = tok, user_mode = um, is_default = True\<rparr>)]\<rparr>)"
  using assms
  by (simp add: add_profile_def save_profiles_def clear_defaults_def)

theorem first_profile_is_default_witness:
  "add_profile Some \<lparr>config_file = Missing, writable = True\<rparr>
     ''ctf'' ''http://ctf.example.com'' ''token'' True False
   = (True, \<lparr>config_file = Stored
        [(''ctf'', \<lparr>name = ''ctf'', url = ''http://ctf.example.com'', profile_token = ''token'',
                    user_mode = True, is_default = True\<rparr>)],
       writable = True\<rparr>)"
  using first_profile_is_default
    [of "\<lparr>config_file = Missing, writable = True\<rparr>" Some "''http://ctf.example.com''"
        "''http://ctf.example.com''" "''ctf''" "''token''" True False]
  by (simp add: load_profiles_def)

section \<open>Properties of the entity fetchers\<close>

lemma scoreboard_entry_pos: "scoreboard_entry v i e = Inr se \<Longrightarrow> pos se = i"
  by (auto simp: scoreboard_entry_def split: sum.splits json.splits option.splits)

lemma scoreboard_entries_length:
  "scoreboard_entries v i ds = Inr es \<Longrightarrow> length es = length ds"
  by (induction ds arbitrary: i es) (auto split: sum.splits)

lemma scoreboard_entries_nth:
  "scoreboard_entries v i ds = Inr es \<Longrightarrow> k < length ds \<Longrightarrow>
     scoreboard_entry v (i + int k) (ds ! k) = Inr (es ! k)"
proof (induction ds arbitrary: i es k)
  case Nil
  then show ?case by simp
next
  case (Cons d ds)
  from Cons.prems(1) obtain se ses where
    se: "scoreboard_entry v i d = Inr se" and
    ses: "scoreboard_entries v (i + 1) ds = Inr ses" and
    es: "es = se # ses"
    by (auto split: sum.splits)
  show ?case
  proof (cases k)
    case 0
    with se es show ?thesis by simp
  next
    case (Suc j)
    with Cons.prems(2) have "j < length ds" by simp
    from Cons.IH [OF ses this] Suc es show ?thesis
      by (simp add: ac_simps)
  qed
qed

lemma scoreboard_entries_pos:
  "scoreboard_entries v i ds = Inr es \<Longrightarrow> map pos es = map (\<lambda>k. i + int k) [0..<length ds]"
proof (rule nth_equalityI)
  assume a: "scoreboard_entries v i ds = Inr es"
  show "length (map pos es) = length (map (\<lambda>k. i + int k) [0..<length ds])"
    using scoreboard_entries_length [OF a] by simp
  fix k assume "k < length (map pos es)"
  then have k: "k < length ds" using scoreboard_entries_length [OF a] by simp
  from scoreboard_entry_pos [OF scoreboard_entries_nth [OF a k]] k
  show "map pos es ! k = map (\<lambda>k. i + int k) [0..<length ds] ! k"
    using scoreboard_entries_length [OF a] by simp
qed

text \<open>
  C8: whenever \<^verbatim>\<open>get_scoreboard\<close> returns entries, there are as many as the response has
  elements, their \<^verbatim>\<open>pos\<close> values are 1, 2, ..., N, and the entry at each position is the
  one built from the element at that position of the response: the order of the response
  is kept.
\<close>

theorem get_scoreboard_positions:
  assumes "get_scoreboard v srv c count hist = (Inr entries, h)"
  shows "\<exists>data ds.
           make_request srv c ''GET'' (''/scoreboard?count='' @ str_int count) None hist = (Inr data, h)
         \<and> py_iter data = Inr ds
         \<and> length entries = length ds
         \<and> map pos entries = map (\<lambda>k. 1 + int k) [0..<length ds]
         \<and> (\<forall>k<length ds. scoreboard_entry v (1 + int k) (ds ! k) = Inr (entries ! k))"
proof -
  from assms obtain data ds where
    d: "make_request srv c ''GET'' (''/scoreboard?count='' @ str_int count) None hist = (Inr data, h)"
    and i: "py_iter data = Inr ds"
    and e: "scoreboard_entries v 1 ds = Inr entries"
    by (auto simp: get_scoreboard_def split: prod.splits sum.splits)
  from e have "length entries = length ds"
    by (rule scoreboard_entries_length)
  moreover from e have "map pos entries = map (\<lambda>k. 1 + int k) [0..<length ds]"
    by (rule scoreboard_entries_pos)
  moreover from e have "\<forall>k<length ds. scoreboard_entry v (1 + int k) (ds ! k) = Inr (entries ! k)"
    by (simp add: scoreboard_entries_nth)
  ultimately show ?thesis using d i by blast
qed

theorem get_scoreboard_positions_witness:
  "fst (get_scoreboard
     \<lparr>as_int = (\<lambda>j. case j of JInt n \<Rightarrow> Some n | _ \<Rightarrow> None),
      as_str = (\<lambda>j. case j of JStr s \<Rightarrow> Some s | _ \<Rightarrow> None)\<rparr>
     (\<lambda>hist req. Responded \<lparr>status_code = 200, reason = ''OK'', resp_url = req_url req,
        content = Json (JDict [(''success'', JBool True),
          (''data'', JList
             [JDict [(''account_id'', JInt 7), (''name'', JStr ''beta''), (''score'', JInt 10)],
              JDict [(''account_id'', JInt 3), (''name'', JStr ''alpha''), (''score'', JInt 50),
                     (''type'', JStr ''team'')]])])\<rparr>)
     (CTFdClient_init ''http://ctf.example.com'' ''token'' 30) 50 [])
   = Inr [\<lparr>pos = 1, account_id = 7, account_name = ''beta'', score = 10, account_type = ''user''\<rparr>,
          \<lparr>pos = 2, account_id = 3, account_name = ''alpha'', score = 50, account_type = ''team''\<rparr>]
   \<and> map pos
        [\<lparr>pos = 1, account_id = 7, account_name = ''beta'', score = 10, account_type = ''user''\<rparr>,
         \<lparr>pos = 2, account_id = 3, account_name = ''alpha'', score = 50, account_type = ''team''\<rparr>]
       = [1, 2]"
proof -
  let ?v = "\<lparr>as_int = (\<lambda>j. case j of JInt n \<Rightarrow> Some n | _ \<Rightarrow> None),
             as_str = (\<lambda>j. case j of JStr s \<Rightarrow> Some s | _ \<Rightarrow> None)\<rparr>"
  let ?srv = "\<lambda>hist req. Responded \<lparr>status_code = 200, reason = ''OK'', resp_url = req_url req,
        content = Json (JDict [(''success'', JBool True),
          (''data'', JList
             [JDict [(''account_id'', JInt 7), (''name'', JStr ''beta''), (''score'', JInt 10)],
              JDict [(''account_id'', JInt 3), (''name'', JStr ''alpha''), (''score'', JInt 50),
                     (''type'', JStr ''team'')]])])\<rparr>"
  let ?c = "CTFdClient_init ''http://ctf.example.com'' ''token'' 30"
  let ?es = "[\<lparr>pos = 1, account_id = 7, account_name = ''beta'', score = 10, account_type = ''user''\<rparr>,
          \<lparr>pos = 2, account_id = 3, account_name = ''alpha'', score = 50, account_type = ''team''\<rparr>]"
  let ?h = "[build_request ?c ''GET'' (''/scoreboard?count='' @ str_int 50) None]"
  have g: "get_scoreboard ?v ?srv ?c 50 [] = (Inr ?es, ?h)"
    by (simp add: get_scoreboard_def make_request_def read_response_def raise_for_status_def
        unwrap_def dict_get_def scoreboard_entry_def)
  from get_scoreboard_positions [OF g] obtain ds :: "json list" where
    l: "length ?es = length ds" and m: "map pos ?es = map (\<lambda>k. 1 + int k) [0..<length ds]"
    by blast
  from l have "length ds = 2"
    by simp
  with m have "map pos ?es = [1, 2]"
    by (simp add: upt_rec)
  with g show ?thesis
    by simp
qed

lemma file_urls_strings:
  "file_urls base (map JStr files) =
     Inr (map (\<lambda>file. if prefix ''http'' file then file
                       else if prefix ''/files/'' file then base @ file
                       else base @ ''/files/'' @ dropWhile (\<lambda>x. x = CHR ''/'') file) files)"
  by (induction files) (simp_all add: lstrip_def)

text \<open>
  C10, as the code has it: for a challenge whose \<^verbatim>\<open>files\<close> list holds strings,
  \<^verbatim>\<open>get_challenge_files\<close> returns, in order, each entry unchanged when it starts with
  \<^verbatim>\<open>http\<close>, prefixed with the base URL when it starts with \<^verbatim>\<open>/files/\<close>, and else
  stripped of its leading slashes and prefixed with the base URL and \<^verbatim>\<open>/files/\<close>. Every
  URL returned is absolute when the base URL is absolute and each entry that starts with
  \<^verbatim>\<open>http\<close> is an absolute URL itself.
\<close>

theorem get_challenge_files_urls:
  assumes "make_request srv c ''GET'' (''/challenges/'' @ str_int challenge_id) None hist
             = (Inr (JDict kvs), h)"
    and "dict_get kvs ''files'' (JList []) = JList (map JStr files)"
  shows "\<exists>urls. get_challenge_files srv c challenge_id hist = (Inr urls, h)
       \<and> urls = map (\<lambda>file. if prefix ''http'' file then file
                            else if prefix ''/files/'' file then base_url c @ file
                            else base_url c @ ''/files/'' @ dropWhile (\<lambda>x. x = CHR ''/'') file) files
       \<and> (absolute_url (base_url c) \<and> (\<forall>file\<in>set files. prefix ''http'' file \<longrightarrow> absolute_url file)
            \<longrightarrow> (\<forall>u\<in>set urls. absolute_url u))"
proof -
  let ?f = "\<lambda>file. if prefix ''http'' file then file
                   else if prefix ''/files/'' file then base_url c @ file
                   else base_url c @ ''/files/'' @ dropWhile (\<lambda>x. x = CHR ''/'') file"
  have "get_challenge_files srv c challenge_id hist = (Inr (map ?f files), h)"
    using assms by (simp add: get_challenge_files_def file_urls_strings)
  moreover have "absolute_url (base_url c) \<and> (\<forall>file\<in>set files. prefix ''http'' file \<longrightarrow> absolute_url file)
                   \<longrightarrow> (\<forall>u\<in>set (map ?f files). absolute_url u)"
  proof
    assume a: "absolute_url (base_url c) \<and> (\<forall>file\<in>set files. prefix ''http'' file \<longrightarrow> absolute_url file)"
    then have b: "absolute_url (base_url c @ rest)" for rest
      unfolding absolute_url_def using prefix_prefix by blast
    have "absolute_url (?f x)" if "x \<in> set files" for x
    proof (cases "prefix ''http'' x")
      case True
      with a that show ?thesis by simp
    next
      case False
      then show ?thesis using b by simp
    qed
    then show "\<forall>u\<in>set (map ?f files). absolute_url u"
      unfolding set_map by blast
  qed
  ultimately show ?thesis by blast
qed

theorem get_challenge_files_urls_witness:
  "get_challenge_files
     (\<lambda>hist req. Responded \<lparr>status_code = 200, reason = ''OK'', resp_url = req_url req,
        content = Json (JDict [(''success'', JBool True),
          (''data'', JDict [(''id'', JInt 5), (''files'', JList (map JStr
             [''https://cdn.example.com/a.zip'', ''/files/abc/b.txt'', ''/c.txt'', ''d.txt'']))])])\<rparr>)
     (CTFdClient_init ''http://ctf.example.com/'' ''token'' 30) 5 []
   = (Inr [''https://cdn.example.com/a.zip'', ''http://ctf.example.com/files/abc/b.txt'',
           ''http://ctf.example.com/files/c.txt'', ''http://ctf.example.com/files/d.txt''],
      [build_request (CTFdClient_init ''http://ctf.example.com/'' ''token'' 30)
         ''GET'' (''/challenges/'' @ str_int 5) None])
   \<and> list_all absolute_url
        [''https://cdn.example.com/a.zip'', ''http://ctf.example.com/files/abc/b.txt'',
         ''http://ctf.example.com/files/c.txt'', ''http://ctf.example.com/files/d.txt'']"
proof -
  let ?files = "[''https://cdn.example.com/a.zip'', ''/files/abc/b.txt'', ''/c.txt'', ''d.txt'']"
  let ?kvs = "[(''id'', JInt 5), (''files'', JList (map JStr ?files))]"
  let ?srv = "\<lambda>hist req. Responded \<lparr>status_code = 200, reason = ''OK'', resp_url = req_url req,
        content = Json (JDict [(''success'', JBool True), (''data'', JDict ?kvs)])\<rparr>"
  let ?c = "CTFdClient_init ''http://ctf.example.com/'' ''token'' 30"
  let ?h = "[build_request ?c ''GET'' (''/challenges/'' @ str_int 5) None]"
  have m: "make_request ?srv ?c ''GET'' (''/challenges/'' @ str_int 5) None [] = (Inr (JDict ?kvs), ?h)"
    by (simp add: make_request_def read_response_def raise_for_status_def unwrap_def dict_get_def)
  have f: "dict_get ?kvs ''files'' (JList []) = JList (map JStr ?files)"
    by (simp add: dict_get_def)
  have b: "base_url ?c = ''http://ctf.example.com''"
    by (simp add: CTFdClient_init_def rstrip_def)
  have a: "absolute_url (base_url ?c) \<and> (\<forall>file\<in>set ?files. prefix ''http'' file \<longrightarrow> absolute_url file)"
    by (simp add: b absolute_url_def)
  from get_challenge_files_urls [OF m f] obtain urls where
    g: "get_challenge_files ?srv ?c 5 [] = (Inr urls, ?h)"
    and u: "urls = [''https://cdn.example.com/a.zip'', ''http://ctf.example.com/files/abc/b.txt'',
           ''http://ctf.example.com/files/c.txt'', ''http://ctf.example.com/files/d.txt'']"
    and "absolute_url (base_url ?c) \<and> (\<forall>file\<in>set ?files. prefix ''http'' file \<longrightarrow> absolute_url file)
            \<longrightarrow> (\<forall>u\<in>set urls. absolute_url u)"
    by (auto simp: b)
  with a have "\<forall>u\<in>set urls. absolute_url u"
    by blast
  then have "list_all absolute_url urls"
    by (simp add: list_all_iff)
  with g show ?thesis
    unfolding u by simp
qed

text \<open>
  C10 as stated has every returned URL absolute. An entry that starts with \<^verbatim>\<open>http\<close> is
  returned as it is, also when it is a relative file name such as \<^verbatim>\<open>httpd.conf\<close>.
\<close>

theorem get_challenge_files_relative:
  "get_challenge_files
     (\<lambda>hist req. Responded \<lparr>status_code = 200, reason = ''OK'', resp_url = req_url req,
        content = Json (JDict [(''success'', JBool True),
          (''data'', JDict [(''id'', JInt 5), (''files'', JList [JStr ''httpd.conf''])])])\<rparr>)
     (CTFdClient_init ''http://ctf.example.com'' ''token'' 30) 5 []
   = (Inr [''httpd.conf''],
      [\<lparr>req_method = ''GET'', req_url = ''http://ctf.example.com/api/v1/challenges/5'',
        req_auth = ''Token token'', req_json = None\<rparr>])
   \<and> \<not> absolute_url ''httpd.conf''"
  by code_simp

text \<open>
  C5: the fallback chain over \<^verbatim>\<open>/me/solves\<close>, \<^verbatim>\<open>/me\<close>, \<^verbatim>\<open>/submissions/me\<close>, the scoped
  solves endpoint and the challenges list is what the first definition of
  \<^verbatim>\<open>get_user_solves\<close> does. The second definition replaces it: called for the current
  user (\<^verbatim>\<open>None\<close>) on a deployment that has the challenges list only, the method makes the
  one request \<^verbatim>\<open>/users/None/solves\<close> and returns the empty list, where the shadowed
  definition makes the five requests and returns the solved id.
\<close>

theorem get_user_solves_one_endpoint:
  "get_user_solves
     (\<lambda>hist req. if req_url req = ''http://ctf.example.com/api/v1/challenges''
        then Responded \<lparr>status_code = 200, reason = ''OK'', resp_url = req_url req,
               content = Json (JDict [(''success'', JBool True),
                 (''data'', JList [JDict [(''id'', JInt 1), (''solved_by_me'', JBool True)],
                                  JDict [(''id'', JInt 2), (''solved_by_me'', JBool False)]])])\<rparr>
        else Responded \<lparr>status_code = 404, reason = ''Not Found'', resp_url = req_url req,
               content = NoContent\<rparr>)
     (CTFdClient_init ''http://ctf.example.com'' ''token'' 30) None []
   = (Inr (JList []),
      [\<lparr>req_method = ''GET'', req_url = ''http://ctf.example.com/api/v1/users/None/solves'',
        req_auth = ''Token token'', req_json = None\<rparr>])
   \<and> get_user_solves_shadowed
     (\<lambda>hist req. if req_url req = ''http://ctf.example.com/api/v1/challenges''
        then Responded \<lparr>status_code = 200, reason = ''OK'', resp_url = req_url req,
               content = Json (JDict [(''success'', JBool True),
                 (''data'', JList [JDict [(''id'', JInt 1), (''solved_by_me'', JBool True)],
                                  JDict [(''id'', JInt 2), (''solved_by_me'', JBool False)]])])\<rparr>
        else Responded \<lparr>status_code = 404, reason = ''Not Found'', resp_url = req_url req,
               content = NoContent\<rparr>)
     (CTFdClient_init ''http://ctf.example.com'' ''token'' 30) None []
   = (Inr [JInt 1],
      map (\<lambda>ep. build_request (CTFdClient_init ''http://ctf.example.com'' ''token'' 30) ''GET'' ep None)
        [''/me/solves'', ''/me'', ''/submissions/me'', ''/teams/me/solves'', ''/challenges''])"
  by code_simp

text \<open>
  The shadowed definition does reach the challenges list when its four endpoints fail:
  it makes the four requests in order, and returns what the last resort derives.
\<close>

lemma try_endpoints_all_fail:
  assumes "\<And>h ep. ep \<in> set eps \<Longrightarrow> \<exists>e. fst (make_request srv c ''GET'' ep None h) = Inl (CTFdAPIError e)"
  shows "try_endpoints srv c eps hist =
           (Inr (fst (solves_from_challenges srv c (hist @ map (\<lambda>ep. build_request c ''GET'' ep None) eps))),
            snd (solves_from_challenges srv c (hist @ map (\<lambda>ep. build_request c ''GET'' ep None) eps)))"
  using assms
proof (induction eps arbitrary: hist)
  case Nil
  then show ?case by (simp split: prod.splits)
next
  case (Cons ep eps)
  from Cons.prems [of ep hist] obtain e where
    "fst (make_request srv c ''GET'' ep None hist) = Inl (CTFdAPIError e)" by auto
  then have m: "make_request srv c ''GET'' ep None hist =
                  (Inl (CTFdAPIError e), hist @ [build_request c ''GET'' ep None])"
    using make_request_history [of srv c "''GET''" ep None hist]
    by (cases "make_request srv c ''GET'' ep None hist") simp
  have "try_endpoints srv c (ep # eps) hist =
          try_endpoints srv c eps (hist @ [build_request c ''GET'' ep None])"
    using m by simp
  also have "\<dots> = (Inr (fst (solves_from_challenges srv c ((hist @ [build_request c ''GET'' ep None]) @ map (\<lambda>ep. build_request c ''GET'' ep None) eps))),
            snd (solves_from_challenges srv c ((hist @ [build_request c ''GET'' ep None]) @ map (\<lambda>ep. build_request c ''GET'' ep None) eps)))"
    by (rule Cons.IH) (simp add: Cons.prems)
  finally show ?case by simp
qed

end
